theory Spec2Isabelle
  imports Main "HOL-Library.Sublist"
begin

section \<open>Values shared by the tools\<close>

text \<open>
  A JavaScript string is modelled as a \<^typ>\<open>string\<close>: a list of code units, each read as a
  value below 256. A JSON value as the request function returns it is a finite tree. An
  object is the list of its own properties in enumeration order, none of them named
  \<open>__proto__\<close>; arrays have no holes. Scalars are never inspected by the tools beyond
  their truthiness, and a number is kept as an integer.
\<close>

datatype json =
    JNull
  | JBool bool
  | JNum int
  | JStr string
  | JArr "json list"
  | JObj "(string \<times> json) list"

text \<open>A thrown JavaScript error: a plain \<open>Error\<close> with its message, a \<open>TypeError\<close> of
  the runtime, or the \<open>ClientError\<close> of the request library with the messages of its
  response, when it has any.\<close>

datatype error =
    Error string
  | TypeError string
  | ClientError string "string list option"

fun message :: "error \<Rightarrow> string" where
  "message (Error m) = m"
| "message (TypeError m) = m"
| "message (ClientError m _) = m"

text \<open>The decimal text of a non-negative integer, as a template literal prints it.\<close>

definition digit :: "nat \<Rightarrow> char" where
  "digit d = char_of (48 + d)"

fun num_str :: "nat \<Rightarrow> string" where
  "num_str n = (if n < 10 then [digit n] else num_str (n div 10) @ [digit (n mod 10)])"

declare num_str.simps [simp del]

text \<open>\<open>obj[key] = v\<close>: an existing property keeps its place and takes the new value, a
  new one is added last. (The keys the tools add themselves, \<open>limit\<close>, \<open>offset\<close> and
  \<open>_warning\<close>, are no array indices, which would be enumerated first.)\<close>

fun obj_set :: "(string \<times> json) list \<Rightarrow> string \<Rightarrow> json \<Rightarrow> (string \<times> json) list" where
  "obj_set [] k v = [(k, v)]"
| "obj_set ((k', v') # kvs) k v =
     (if k' = k then (k, v) # kvs else (k', v') # obj_set kvs k v)"

text \<open>The request function of \<open>index.ts\<close> as the tools see it: given a document and its
  variables it answers with a value or throws. A tool's run returns its outcome together
  with the requests it issued, in order.\<close>

type_synonym variables = "(string \<times> json) list"

type_synonym request = "string \<times> variables option"

type_synonym MakeGqlRequest = "string \<Rightarrow> variables option \<Rightarrow> error + json"

subsection \<open>String methods\<close>

text \<open>\<open>trim\<close> removes white space and line terminators from both ends; below 256 these
  are the code units 9 to 13, 32 and 160. \<open>toLowerCase\<close> maps \<open>A\<close> to \<open>Z\<close> and the
  upper-case letters of the range 192 to 222 (215, the multiplication sign, apart) to the
  code unit 32 above, and leaves every other code unit below 256 alone.\<close>

definition is_space :: "char \<Rightarrow> bool" where
  "is_space c = (let n = (of_char c :: nat) in (9 \<le> n \<and> n \<le> 13) \<or> n = 32 \<or> n = 160)"

definition trim :: "string \<Rightarrow> string" where
  "trim s = rev (dropWhile is_space (rev (dropWhile is_space s)))"

definition lower_char :: "char \<Rightarrow> char" where
  "lower_char c =
     (let n = (of_char c :: nat) in
      if (65 \<le> n \<and> n \<le> 90) \<or> (192 \<le> n \<and> n \<le> 222 \<and> n \<noteq> 215)
      then char_of (n + 32) else c)"

definition toLowerCase :: "string \<Rightarrow> string" where
  "toLowerCase s = map lower_char s"

definition startsWith :: "string \<Rightarrow> string \<Rightarrow> bool" where
  "startsWith s p = (take (length p) s = p)"

definition endsWith :: "string \<Rightarrow> string \<Rightarrow> bool" where
  "endsWith s p = (length p \<le> length s \<and> drop (length s - length p) s = p)"

fun join :: "string \<Rightarrow> string list \<Rightarrow> string" where
  "join sep [] = []"
| "join sep [x] = x"
| "join sep (x # y # ys) = x @ sep @ join sep (y # ys)"

section \<open>RunGraphQLQueryTool with the post-hoc trim\<close>

record trim_state =
  trimmed :: bool
  trimmedFields :: "string list"

fun trimResult :: "json \<Rightarrow> string \<Rightarrow> trim_state \<Rightarrow> json \<times> trim_state"
  and trimItems :: "json list \<Rightarrow> string \<Rightarrow> nat \<Rightarrow> trim_state \<Rightarrow> json list \<times> trim_state"
  and trimProps ::
    "(string \<times> json) list \<Rightarrow> string \<Rightarrow> (string \<times> json) list \<Rightarrow> trim_state
      \<Rightarrow> (string \<times> json) list \<times> trim_state"
where
  "trimResult (JArr obj) path st =
     (if length obj > 100 then
        (JArr (take 100 obj),
         st\<lparr>trimmed := True,
            trimmedFields := trimmedFields st @
              [path @ '' ('' @ num_str (length obj) @ '' rows trimmed to 100)'']\<rparr>)
      else (case trimItems obj path 0 st of (items, st') \<Rightarrow> (JArr items, st')))"
| "trimResult (JObj obj) path st =
     (case trimProps obj path [] st of (trimmedObj, st') \<Rightarrow> (JObj trimmedObj, st'))"
| "trimResult JNull path st = (JNull, st)"
| "trimResult (JBool b) path st = (JBool b, st)"
| "trimResult (JNum n) path st = (JNum n, st)"
| "trimResult (JStr s) path st = (JStr s, st)"
| "trimItems [] path idx st = ([], st)"
| "trimItems (item # rest) path idx st =
     (case trimResult item (path @ ''['' @ num_str idx @ '']'') st of
        (item', st1) \<Rightarrow>
          (case trimItems rest path (Suc idx) st1 of
             (rest', st2) \<Rightarrow> (item' # rest', st2)))"
| "trimProps [] path trimmedObj st = (trimmedObj, st)"
| "trimProps ((key, v) # rest) path trimmedObj st =
     (case trimResult v (if path = ''root'' then key else path @ ''.'' @ key) st of
        (v', st1) \<Rightarrow> trimProps rest path (obj_set trimmedObj key v') st1)"

text \<open>\<open>{...v}\<close>: the own enumerable properties of \<open>v\<close>, an array's and a string's
  under their indices.\<close>

fun indexed :: "nat \<Rightarrow> json list \<Rightarrow> (string \<times> json) list" where
  "indexed i [] = []"
| "indexed i (x # xs) = (num_str i, x) # indexed (Suc i) xs"

fun spread :: "json \<Rightarrow> (string \<times> json) list" where
  "spread (JObj kvs) = kvs"
| "spread (JArr xs) = indexed 0 xs"
| "spread (JStr s) = indexed 0 (map (\<lambda>c. JStr [c]) s)"
| "spread _ = []"

definition warning_text :: "string list \<Rightarrow> string" where
  "warning_text fs =
     ''Results were automatically trimmed to 100 rows per array to prevent excessive data. Trimmed fields: ''
     @ join '', '' fs
     @ ''. Use pagination in your query (limit/offset) or set forceBigQuery=true to get all results.''"

text \<open>The input of the tool after validation against its schema: the query and its
  optional variables, and in this variant the optional override flag.\<close>

record query_input =
  query :: string
  variables :: "variables option"

record trim_query_input = query_input +
  forceBigQuery :: "bool option"

definition read_only_message :: string where
  "read_only_message = ''This tool only supports read-only queries...''"

text \<open>The run of \<open>execute\<close>. The payload is the value handed to \<open>JSON.stringify\<close>;
  the serialisation itself is not modelled.\<close>

definition trim_execute ::
  "MakeGqlRequest \<Rightarrow> trim_query_input \<Rightarrow> (error + json) \<times> request list" where
  "trim_execute makeGqlRequest input =
     (let force = (case forceBigQuery input of None \<Rightarrow> False | Some b \<Rightarrow> b) in
      if startsWith (toLowerCase (trim (query input))) ''mutation''
      then (Inl (Error read_only_message), [])
      else
        let vars = (case variables input of None \<Rightarrow> [] | Some v \<Rightarrow> v);
            sent = [(query input, Some vars)]
        in case makeGqlRequest (query input) (Some vars) of
             Inl e \<Rightarrow> (Inl e, sent)
           | Inr result \<Rightarrow>
               if \<not> force then
                 (case trimResult result ''root'' \<lparr>trimmed = False, trimmedFields = []\<rparr> of
                    (trimmedResult, st) \<Rightarrow>
                      if trimmed st
                      then (Inr (JObj (obj_set (spread trimmedResult) ''_warning''
                                   (JStr (warning_text (trimmedFields st))))), sent)
                      else (Inr trimmedResult, sent))
               else (Inr result, sent))"

subsection \<open>Nodes and their paths\<close>












text \<open>The state \<open>execute\<close> starts the walk in, and the responses used as examples
  below: \<open>rows n\<close> is an array of the \<open>n\<close> numbers from 0.\<close>

definition rows :: "nat \<Rightarrow> json" where
  "rows n = JArr (map (\<lambda>i. JNum (int i)) [0..<n])"



definition init_state :: trim_state where
  "init_state = \<lparr>trimmed = False, trimmedFields = []\<rparr>"




section \<open>The role check and the pre-flight ceiling\<close>

subsection \<open>RunGraphQLQueryTool with the pre-flight ceiling\<close>

text \<open>This variant of the tool takes \<open>limit\<close> (a positive integer) and \<open>offset\<close> (a
  non-negative one) beside the override flag, and merges them into the variables.\<close>

record paged_query_input = trim_query_input +
  limit :: "int option"
  offset :: "int option"

definition limit_message :: string where
  "limit_message = ''Query requires limit <= 100. Set forceBigQuery=true to bypass this safety check.''"

definition mergedVariables :: "paged_query_input \<Rightarrow> variables" where
  "mergedVariables input =
     (let v0 = (case variables input of None \<Rightarrow> [] | Some v \<Rightarrow> v);
          v1 = (case limit input of None \<Rightarrow> v0 | Some l \<Rightarrow> obj_set v0 ''limit'' (JNum l))
      in case offset input of None \<Rightarrow> v1 | Some off \<Rightarrow> obj_set v1 ''offset'' (JNum off))"

definition preflight_execute ::
  "MakeGqlRequest \<Rightarrow> paged_query_input \<Rightarrow> (error + json) \<times> request list" where
  "preflight_execute makeGqlRequest input =
     (let force = (case forceBigQuery input of None \<Rightarrow> False | Some b \<Rightarrow> b) in
      if startsWith (toLowerCase (trim (query input))) ''mutation''
      then (Inl (Error read_only_message), [])
      else if \<not> force \<and> (case limit input of None \<Rightarrow> True | Some l \<Rightarrow> l > 100)
      then (Inl (Error limit_message), [])
      else
        (case makeGqlRequest (query input) (Some (mergedVariables input)) of
           Inl e \<Rightarrow> (Inl e, [(query input, Some (mergedVariables input))])
         | Inr result \<Rightarrow> (Inr result, [(query input, Some (mergedVariables input))])))"

subsection \<open>RunGraphQLQueryTool without a result policy, and RunGraphQLMutationTool\<close>

definition plain_execute ::
  "MakeGqlRequest \<Rightarrow> query_input \<Rightarrow> (error + json) \<times> request list" where
  "plain_execute makeGqlRequest input =
     (if startsWith (toLowerCase (trim (query input))) ''mutation''
      then (Inl (Error read_only_message), [])
      else
        (case makeGqlRequest (query input) (variables input) of
           Inl e \<Rightarrow> (Inl e, [(query input, variables input)])
         | Inr result \<Rightarrow> (Inr result, [(query input, variables input)])))"

text \<open>The input of the mutation tool has the properties \<open>mutation\<close> and
  \<open>variables\<close>; the second is named \<open>mutation_variables\<close> here, apart from the
  field of the query tools.\<close>

record mutation_input =
  mutation :: string
  mutation_variables :: "variables option"

definition not_mutation_message :: string where
  "not_mutation_message = ''The provided string does not appear to be a mutation...''"

definition mutation_execute ::
  "MakeGqlRequest \<Rightarrow> mutation_input \<Rightarrow> (error + json) \<times> request list" where
  "mutation_execute makeGqlRequest input =
     (if \<not> startsWith (toLowerCase (trim (mutation input))) ''mutation''
      then (Inl (Error not_mutation_message), [])
      else
        (case makeGqlRequest (mutation input) (mutation_variables input) of
           Inl e \<Rightarrow> (Inl e, [(mutation input, mutation_variables input)])
         | Inr result \<Rightarrow> (Inr result, [(mutation input, mutation_variables input)])))"

subsection \<open>Beginning with a keyword\<close>

text \<open>A document begins with a keyword of lower-case letters, case-insensitively and
  after its leading white space, when the code units that follow the white space are,
  one by one, the letter of the keyword or its upper-case form (the code unit 32 below).\<close>

definition same_letter :: "char \<Rightarrow> char \<Rightarrow> bool" where
  "same_letter c d = (c = d \<or> (of_char c :: nat) + 32 = of_char d)"

definition begins_with :: "string \<Rightarrow> string \<Rightarrow> bool" where
  "begins_with kw doc =
     (let rest = dropWhile is_space doc
      in length kw \<le> length rest \<and> list_all2 same_letter (take (length kw) rest) kw)"

subsection \<open>Example requests\<close>

definition users_query :: string where
  "users_query = ''query($limit: Int!) { users(limit: $limit) { id } }''"

definition paged_example :: "int option \<Rightarrow> bool option \<Rightarrow> paged_query_input" where
  "paged_example l f =
     \<lparr>query = users_query, variables = None, forceBigQuery = f, limit = l, offset = None\<rparr>"

section \<open>The introspected schema\<close>

text \<open>A type reference of the introspection result: its kind, its name (null on a
  wrapper) and the type it wraps (null on a named type). A value of this type is a
  finite chain, as any parsed JSON value is.\<close>

datatype kind = SCALAR | OBJECT | INTERFACE | UNION | ENUM | INPUT_OBJECT | LIST | NON_NULL

datatype type_ref =
  TypeRef (ref_kind: kind) (ref_name: "string option") (ofType: "type_ref option")

record introspection_field =
  field_name :: string
  field_description :: "string option"
  field_type :: type_ref

text \<open>A type of the schema; \<open>type_fields\<close> is \<open>None\<close> when the type has no
  \<open>fields\<close> property.\<close>

record type_desc =
  type_kind :: kind
  type_name :: string
  type_fields :: "introspection_field list option"

text \<open>The schema: the names of its three root types, where it has them, and its types.\<close>

record introspection_schema =
  queryType :: "string option"
  mutationType :: "string option"
  subscriptionType :: "string option"
  types :: "type_desc list"

subsection \<open>Well-formed type references\<close>

text \<open>A named type, wrapped in non-null and list layers any number of times in any
  order, and the type reference that the introspection gives for it.\<close>

datatype named_kind = NScalar | NObject | NInterface | NUnion | NEnum | NInputObject

fun kind_of :: "named_kind \<Rightarrow> kind" where
  "kind_of NScalar = SCALAR"
| "kind_of NObject = OBJECT"
| "kind_of NInterface = INTERFACE"
| "kind_of NUnion = UNION"
| "kind_of NEnum = ENUM"
| "kind_of NInputObject = INPUT_OBJECT"

datatype type_shape = Named named_kind string | NonNullOf type_shape | ListOf type_shape

fun ref_of :: "type_shape \<Rightarrow> type_ref" where
  "ref_of (Named k n) = TypeRef (kind_of k) (Some n) None"
| "ref_of (NonNullOf t) = TypeRef NON_NULL None (Some (ref_of t))"
| "ref_of (ListOf t) = TypeRef LIST None (Some (ref_of t))"

fun innermost_kind :: "type_shape \<Rightarrow> named_kind" where
  "innermost_kind (Named k n) = k"
| "innermost_kind (NonNullOf t) = innermost_kind t"
| "innermost_kind (ListOf t) = innermost_kind t"

fun innermost_name :: "type_shape \<Rightarrow> string" where
  "innermost_name (Named k n) = n"
| "innermost_name (NonNullOf t) = innermost_name t"
| "innermost_name (ListOf t) = innermost_name t"

fun has_list :: "type_shape \<Rightarrow> bool" where
  "has_list (Named k n) = False"
| "has_list (NonNullOf t) = has_list t"
| "has_list (ListOf t) = True"

fun has_non_null :: "type_shape \<Rightarrow> bool" where
  "has_non_null (Named k n) = False"
| "has_non_null (NonNullOf t) = True"
| "has_non_null (ListOf t) = has_non_null t"

fun outer_non_null :: "type_shape \<Rightarrow> bool" where
  "outer_non_null (NonNullOf t) = True"
| "outer_non_null _ = False"

fun depth :: "type_shape \<Rightarrow> nat" where
  "depth (Named k n) = 0"
| "depth (NonNullOf t) = Suc (depth t)"
| "depth (ListOf t) = Suc (depth t)"

fun list_layers :: "nat \<Rightarrow> type_shape \<Rightarrow> type_shape" where
  "list_layers 0 t = t"
| "list_layers (Suc n) t = ListOf (list_layers n t)"

section \<open>PreviewTableDataTool: the projection of a table's fields\<close>

text \<open>The loop of the filter callback, which follows \<open>ofType\<close> while the kind is a
  wrapper's. Reading \<open>kind\<close> of a null \<open>ofType\<close> throws the \<open>TypeError\<close> of the
  runtime; \<open>null_kind_message\<close> stands for its text.\<close>

definition null_kind_message :: string where
  "null_kind_message = ''Cannot read properties of null (reading kind)''"

fun currentType :: "type_ref \<Rightarrow> error + type_ref" where
  "currentType (TypeRef k n t) =
     (if k = NON_NULL \<or> k = LIST
      then (case t of None \<Rightarrow> Inl (TypeError null_kind_message) | Some t' \<Rightarrow> currentType t')
      else Inr (TypeRef k n t))"

definition is_scalar_field :: "introspection_field \<Rightarrow> error + bool" where
  "is_scalar_field f =
     (case currentType (field_type f) of
        Inl e \<Rightarrow> Inl e
      | Inr t \<Rightarrow> Inr (ref_kind t = SCALAR \<or> ref_kind t = ENUM))"

text \<open>\<open>Array.prototype.filter\<close> with a callback that may throw: the first throw ends
  it.\<close>

fun filter_fields :: "introspection_field list \<Rightarrow> error + introspection_field list" where
  "filter_fields [] = Inr []"
| "filter_fields (f # fs) =
     (case is_scalar_field f of
        Inl e \<Rightarrow> Inl e
      | Inr keep \<Rightarrow>
          (case filter_fields fs of
             Inl e \<Rightarrow> Inl e
           | Inr rest \<Rightarrow> Inr (if keep then f # rest else rest)))"

definition scalarFields :: "type_desc \<Rightarrow> error + string list" where
  "scalarFields tableType =
     (case (case type_fields tableType of
              None \<Rightarrow> Inr []
            | Some fs \<Rightarrow>
                (case filter_fields fs of
                   Inl e \<Rightarrow> Inl e
                 | Inr kept \<Rightarrow> Inr (map field_name kept))) of
        Inl e \<Rightarrow> Inl e
      | Inr names \<Rightarrow> Inr (if length names = 0 then names @ [''__typename''] else names))"

text \<open>\<open>schema.types.find\<close> by name and kind.\<close>

definition find_table :: "introspection_schema \<Rightarrow> string \<Rightarrow> type_desc option" where
  "find_table schema tableName =
     find (\<lambda>t. type_name t = tableName \<and> type_kind t = OBJECT) (types schema)"

definition table_not_found :: "string \<Rightarrow> string" where
  "table_not_found tableName =
     ''Table (Object type) '' @ [CHR 0x27] @ tableName @ [CHR 0x27] @ '' not found in schema.''"

definition preview_query :: "string \<Rightarrow> string list \<Rightarrow> string" where
  "preview_query tableName names =
     '' query PreviewData($limit: Int!) { '' @ tableName @ ''(limit: $limit) { ''
     @ join ([CHR 0x0A] @ ''          '') names @ '' } }''"

text \<open>The inputs of the table tools share the table's name; the preview adds its
  \<open>limit\<close>, named \<open>preview_limit\<close> here.\<close>

record table_input =
  tableName :: string

record preview_input = table_input +
  preview_limit :: int

text \<open>The run of \<open>execute\<close>, given what the schema getter answers.\<close>

definition preview_execute ::
  "MakeGqlRequest \<Rightarrow> error + introspection_schema \<Rightarrow> preview_input
     \<Rightarrow> (error + json) \<times> request list" where
  "preview_execute makeGqlRequest got input =
     (case got of
        Inl e \<Rightarrow> (Inl e, [])
      | Inr schema \<Rightarrow>
          (case find_table schema (tableName input) of
             None \<Rightarrow> (Inl (Error (table_not_found (tableName input))), [])
           | Some tableType \<Rightarrow>
               (case scalarFields tableType of
                  Inl e \<Rightarrow> (Inl e, [])
                | Inr names \<Rightarrow>
                    (let q = preview_query (tableName input) names;
                         vars = [(''limit'', JNum (preview_limit input))]
                     in (makeGqlRequest q (Some vars), [(q, Some vars)])))))"

section \<open>DescribeTableTool: the type of a column\<close>

text \<open>Of this tool the callback that turns a field of the \<open>__type\<close> answer into a
  column is modelled. The answer is any JSON: the type of a field may be null.\<close>

record described_field =
  df_name :: string
  df_type :: "type_ref option"
  df_description :: "string option"
  df_args :: "json list option"

record type_walk =
  typeString :: string
  isNonNull :: bool
  isList :: bool

text \<open>The loop \<open>while (typeInfo)\<close>: it ends at a null \<open>ofType\<close>, or at the first
  kind that is no wrapper, whose name it takes (\<open>unknown\<close> for a null or empty one).\<close>

fun walk_type :: "type_ref option \<Rightarrow> type_walk \<Rightarrow> type_walk" where
  "walk_type None w = w"
| "walk_type (Some (TypeRef k n t)) w =
     (if k = NON_NULL then walk_type t (w\<lparr>isNonNull := True\<rparr>)
      else if k = LIST then walk_type t (w\<lparr>isList := True\<rparr>)
      else w\<lparr>typeString := (case n of None \<Rightarrow> ''unknown''
                                | Some s \<Rightarrow> if s = [] then ''unknown'' else s)\<rparr>)"

definition fullTypeString :: "type_ref option \<Rightarrow> string" where
  "fullTypeString t =
     (let w = walk_type t \<lparr>typeString = [], isNonNull = False, isList = False\<rparr>;
          s = (if isList w then ''['' @ typeString w @ '']'' else typeString w)
      in if isNonNull w then s @ ''!'' else s)"

record column_info =
  column_name :: string
  column_type :: string
  column_description :: "string option"
  column_args :: "json list option"

definition columnInfo :: "described_field \<Rightarrow> column_info" where
  "columnInfo f =
     \<lparr>column_name = df_name f,
      column_type = fullTypeString (df_type f),
      column_description =
        (case df_description f of None \<Rightarrow> None | Some d \<Rightarrow> if d = [] then None else Some d),
      column_args =
        (case df_args f of None \<Rightarrow> None | Some a \<Rightarrow> if length a = 0 then None else Some a)\<rparr>"

section \<open>Example tables\<close>

text \<open>Example tables: their fields are given by name and shape.\<close>

definition field_of :: "string \<times> type_shape \<Rightarrow> introspection_field" where
  "field_of p = \<lparr>field_name = fst p, field_description = None, field_type = ref_of (snd p)\<rparr>"

definition shape_in :: "(string \<times> type_shape) list \<Rightarrow> introspection_field \<Rightarrow> type_shape" where
  "shape_in nts f = (case map_of nts (field_name f) of Some t \<Rightarrow> t | None \<Rightarrow> Named NObject [])"

definition users_fields :: "(string \<times> type_shape) list" where
  "users_fields =
     [(''id'', NonNullOf (Named NScalar ''Int'')),
      (''status'', Named NEnum ''status_enum''),
      (''posts'', NonNullOf (ListOf (NonNullOf (Named NObject ''posts'')))),
      (''tags'', ListOf (Named NScalar ''String'')),
      (''owner'', Named NUnion ''owner'')]"

definition links_fields :: "(string \<times> type_shape) list" where
  "links_fields =
     [(''user'', NonNullOf (Named NObject ''users'')),
      (''targets'', ListOf (Named NUnion ''target''))]"

definition table_of :: "string \<Rightarrow> (string \<times> type_shape) list \<Rightarrow> type_desc" where
  "table_of n nts = \<lparr>type_kind = OBJECT, type_name = n, type_fields = Some (map field_of nts)\<rparr>"

definition example_schema :: introspection_schema where
  "example_schema =
     \<lparr>queryType = Some ''query_root'', mutationType = None, subscriptionType = None,
      types = [table_of ''users'' users_fields, table_of ''links'' links_fields]\<rparr>"

section \<open>The schema cache of index.ts\<close>

text \<open>The module variable \<open>introspectionSchema\<close>, with the number of introspection
  requests issued so far. The backend is a function from the number of a request to what
  \<open>makeGqlRequest\<close> answers to it: an error, or a result whose \<open>__schema\<close> may be
  missing.\<close>

record cache_state =
  introspectionSchema :: "introspection_schema option"
  fetches :: nat

type_synonym backend = "nat \<Rightarrow> error + introspection_schema option"

definition no_schema_message :: string where
  "no_schema_message = ''Introspection query did not return a __schema object.''"

definition fetch_failed :: "string \<Rightarrow> error" where
  "fetch_failed cause = Error (''Failed to get GraphQL schema: '' @ cause)"

definition getIntrospectionSchema ::
  "backend \<Rightarrow> cache_state \<Rightarrow> (error + introspection_schema) \<times> cache_state" where
  "getIntrospectionSchema net st =
     (case introspectionSchema st of
        Some schema \<Rightarrow> (Inr schema, st)
      | None \<Rightarrow>
          (case net (fetches st) of
             Inr (Some schema) \<Rightarrow>
               (Inr schema,
                st\<lparr>introspectionSchema := Some schema, fetches := Suc (fetches st)\<rparr>)
           | Inr None \<Rightarrow>
               (Inl (fetch_failed no_schema_message),
                st\<lparr>introspectionSchema := None, fetches := Suc (fetches st)\<rparr>)
           | Inl e \<Rightarrow>
               (Inl (fetch_failed (message e)),
                st\<lparr>introspectionSchema := None, fetches := Suc (fetches st)\<rparr>)))"

text \<open>Calls of the getter one after the other.\<close>

fun get_times ::
  "nat \<Rightarrow> backend \<Rightarrow> cache_state \<Rightarrow> (error + introspection_schema) list \<times> cache_state" where
  "get_times 0 net st = ([], st)"
| "get_times (Suc n) net st =
     (case getIntrospectionSchema net st of
        (r, st') \<Rightarrow> (case get_times n net st' of (rs, st'') \<Rightarrow> (r # rs, st'')))"

section \<open>The root-type check\<close>

text \<open>The names of the root types the schema has, without the empty ones
  (\<open>filter(Boolean)\<close>), and the types the filter of both tools keeps.\<close>

definition rootTypeNames :: "introspection_schema \<Rightarrow> string list" where
  "rootTypeNames schema =
     filter (\<lambda>n. n \<noteq> [])
       (concat (map (\<lambda>r. case r of None \<Rightarrow> [] | Some n \<Rightarrow> [n])
          [queryType schema, mutationType schema, subscriptionType schema]))"

definition allRootTypes :: "introspection_schema \<Rightarrow> type_desc list" where
  "allRootTypes schema =
     filter (\<lambda>t. type_kind t = OBJECT \<and> endsWith (type_name t) ''_root'' \<and>
                 type_name t \<notin> set (rootTypeNames schema) \<and>
                 \<not> startsWith (type_name t) ''__'')
       (types schema)"

subsection \<open>CheckUnsupportedRootTypesTool\<close>

record standard_types =
  std_query :: "string option"
  std_mutation :: "string option"
  std_subscription :: "string option"

record unsupported_type =
  name :: string
  fieldCount :: nat

record check_result =
  hasUnsupportedTypes :: bool
  standardTypes :: standard_types
  unsupportedTypes :: "unsupported_type list"
  recommendation :: string

definition check_supportedTypes :: "introspection_schema \<Rightarrow> string set" where
  "check_supportedTypes schema =
     set_option (queryType schema) \<union> set_option (mutationType schema)
       \<union> set_option (subscriptionType schema)"

definition check_unsupportedTypes :: "introspection_schema \<Rightarrow> unsupported_type list" where
  "check_unsupportedTypes schema =
     map (\<lambda>t. \<lparr>name = type_name t,
                 fieldCount = (case type_fields t of None \<Rightarrow> 0 | Some fs \<Rightarrow> length fs)\<rparr>)
       (filter (\<lambda>t. type_name t \<notin> check_supportedTypes schema \<and> type_kind t = OBJECT)
          (allRootTypes schema))"

definition check_recommendation :: "nat \<Rightarrow> string" where
  "check_recommendation n =
     (if n > 0
      then ''Found '' @ num_str n @ '' custom root type(s). These types may indicate: 1) Custom schema configuration requiring special handling, 2) Federation or stitching setup with custom root types, or 3) Schema design patterns not following GraphQL conventions. Review these types to determine if they need to be queried through special endpoints or if the schema configuration needs adjustment.''
      else ''No custom root types detected. Schema follows standard GraphQL conventions with standard Query/Mutation/Subscription types.'')"

definition check_execute :: "error + introspection_schema \<Rightarrow> error + check_result" where
  "check_execute got =
     (case got of
        Inl e \<Rightarrow> Inl e
      | Inr schema \<Rightarrow>
          (let unsupported = check_unsupportedTypes schema in
           Inr \<lparr>hasUnsupportedTypes = (length unsupported > 0),
                standardTypes = \<lparr>std_query = queryType schema, std_mutation = mutationType schema,
                                  std_subscription = subscriptionType schema\<rparr>,
                unsupportedTypes = unsupported,
                recommendation = check_recommendation (length unsupported)\<rparr>))"

subsection \<open>ListRootFieldsTool\<close>

text \<open>Of this tool the detection of unsupported root types is modelled: the names it
  reports and its warning. Here \<open>supportedTypes\<close> holds a root name only when the
  requested field type selects that root.\<close>

datatype field_type_filter = QUERY | MUTATION | SUBSCRIPTION

definition list_supportedTypes ::
  "field_type_filter option \<Rightarrow> introspection_schema \<Rightarrow> string set" where
  "list_supportedTypes fieldType schema =
     (if fieldType = None \<or> fieldType = Some QUERY then set_option (queryType schema) else {})
     \<union> (if fieldType = None \<or> fieldType = Some MUTATION
         then set_option (mutationType schema) else {})
     \<union> (if fieldType = None \<or> fieldType = Some SUBSCRIPTION
         then set_option (subscriptionType schema) else {})"

definition list_unsupportedTypes ::
  "field_type_filter option \<Rightarrow> introspection_schema \<Rightarrow> string list" where
  "list_unsupportedTypes fieldType schema =
     map type_name
       (filter (\<lambda>t. type_name t \<notin> list_supportedTypes fieldType schema) (allRootTypes schema))"

definition list_warning :: "string list \<Rightarrow> string option" where
  "list_warning unsupported =
     (if length unsupported > 0
      then Some (''Found '' @ num_str (length unsupported) @ '' potential custom root type(s) that are not standard Query/Mutation/Subscription types: '' @ join '', '' unsupported @ ''. These may require additional support to be queried.'')
      else None)"

subsection \<open>Suspect types\<close>

text \<open>The canonical roots of a schema, and a suspect type: an object type whose name
  ends in \<open>_root\<close>, is not a canonical root and does not begin with \<open>__\<close>.\<close>

definition canonical_roots :: "introspection_schema \<Rightarrow> string set" where
  "canonical_roots schema =
     {n. queryType schema = Some n \<or> mutationType schema = Some n
         \<or> subscriptionType schema = Some n}"

definition suspect :: "introspection_schema \<Rightarrow> type_desc \<Rightarrow> bool" where
  "suspect schema t =
     (type_kind t = OBJECT \<and> suffix ''_root'' (type_name t) \<and>
      type_name t \<notin> canonical_roots schema \<and> \<not> prefix ''__'' (type_name t))"

definition count_fields :: "type_desc \<Rightarrow> nat" where
  "count_fields t = (case type_fields t of None \<Rightarrow> 0 | Some fs \<Rightarrow> length fs)"

text \<open>Example schemas: the query root \<open>query_root\<close>, a table, and extra types.\<close>

definition object_type :: "string \<Rightarrow> nat \<Rightarrow> type_desc" where
  "object_type n k =
     \<lparr>type_kind = OBJECT, type_name = n,
      type_fields = Some (replicate k (field_of (''id'', Named NScalar ''Int'')))\<rparr>"

definition rooted_schema :: "type_desc list \<Rightarrow> introspection_schema" where
  "rooted_schema extra =
     \<lparr>queryType = Some ''query_root'', mutationType = None, subscriptionType = None,
      types = object_type ''query_root'' 3 # object_type ''users'' 2 # extra\<rparr>"

section \<open>An example backend\<close>

text \<open>A backend whose first answer is a failure and whose later answers are the example
  schema.\<close>

definition flaky_backend :: backend where
  "flaky_backend i = (if i = 0 then Inl (Error ''connect ECONNREFUSED'') else Inr (Some example_schema))"

section \<open>AggregateDataTool\<close>

datatype aggregate_fn = AggCount | AggSum | AggAvg | AggMin | AggMax

fun fn_name :: "aggregate_fn \<Rightarrow> string" where
  "fn_name AggCount = ''count''"
| "fn_name AggSum = ''sum''"
| "fn_name AggAvg = ''avg''"
| "fn_name AggMin = ''min''"
| "fn_name AggMax = ''max''"

text \<open>The input: the table, the function, the optional field and the optional filter
  object (the property \<open>filter\<close>, named \<open>filter'\<close> here).\<close>

record aggregate_input = table_input +
  aggregateFunction :: aggregate_fn
  field :: "string option"
  filter' :: "variables option"

text \<open>Truthiness of a JSON value and of an optional string, and the read of a property
  whose key is neither an index nor \<open>length\<close>.\<close>

fun truthy :: "json \<Rightarrow> bool" where
  "truthy JNull = False"
| "truthy (JBool b) = b"
| "truthy (JNum n) = (n \<noteq> 0)"
| "truthy (JStr s) = (s \<noteq> [])"
| "truthy (JArr xs) = True"
| "truthy (JObj kvs) = True"

fun truthy_string :: "string option \<Rightarrow> bool" where
  "truthy_string None = False"
| "truthy_string (Some s) = (s \<noteq> [])"

fun get_prop :: "json \<Rightarrow> string \<Rightarrow> json option" where
  "get_prop (JObj kvs) k = map_of kvs k"
| "get_prop _ k = None"

definition quoted :: "string \<Rightarrow> string" where
  "quoted s = [CHR 0x27] @ s @ [CHR 0x27]"

definition field_required :: "aggregate_fn \<Rightarrow> string" where
  "field_required f =
     ''The '' @ quoted ''field'' @ '' parameter is required for '' @ quoted (fn_name f)
     @ '' aggregation.''"

definition field_missing :: "aggregate_fn \<Rightarrow> string" where
  "field_missing f =
     quoted ''field'' @ '' parameter is missing for '' @ quoted (fn_name f) @ '' aggregation.''"

definition aggregateSelection :: "aggregate_fn \<Rightarrow> string option \<Rightarrow> error + string" where
  "aggregateSelection f fld =
     (if f = AggCount then Inr ''{ count }''
      else if truthy_string fld
      then Inr (''{ '' @ fn_name f @ '' { '' @ (case fld of Some s \<Rightarrow> s | None \<Rightarrow> []) @ '' } }'')
      else Inl (Error (field_missing f)))"

definition aggregate_query :: "string \<Rightarrow> string \<Rightarrow> variables option \<Rightarrow> string" where
  "aggregate_query table selection flt =
     (let aggregateTableName = table @ ''_aggregate'';
          boolExpTypeName = table @ ''_bool_exp'';
          filterVariableDefinition =
            (case flt of None \<Rightarrow> [] | Some _ \<Rightarrow> ''($filter: '' @ boolExpTypeName @ ''!)'');
          whereClause = (case flt of None \<Rightarrow> [] | Some _ \<Rightarrow> ''where: $filter'')
      in [CHR 0x0A] @ ''      query AggregateData '' @ filterVariableDefinition @ '' {''
         @ [CHR 0x0A] @ ''        '' @ aggregateTableName @ ''('' @ whereClause @ '') {''
         @ [CHR 0x0A] @ ''          aggregate '' @ selection
         @ [CHR 0x0A] @ ''        }''
         @ [CHR 0x0A] @ ''      }''
         @ [CHR 0x0A] @ ''    '')"

definition aggregate_variables :: "variables option \<Rightarrow> variables" where
  "aggregate_variables flt = (case flt of None \<Rightarrow> [] | Some f \<Rightarrow> [(''filter'', JObj f)])"

definition finalResult :: "string \<Rightarrow> json \<Rightarrow> json" where
  "finalResult aggregateTableName rawResult =
     (if truthy rawResult then
        (case get_prop rawResult aggregateTableName of
           None \<Rightarrow> rawResult
         | Some t \<Rightarrow>
             if truthy t then
               (case get_prop t ''aggregate'' of
                  None \<Rightarrow> rawResult
                | Some a \<Rightarrow> if truthy a then a else rawResult)
             else rawResult)
      else rawResult)"

fun aggregate_rethrow :: "error \<Rightarrow> error" where
  "aggregate_rethrow (ClientError m (Some errors)) =
     Error (''GraphQL aggregation failed: '' @ join '', '' errors
            @ ''. Check table/field names and filter syntax.'')"
| "aggregate_rethrow e = e"

definition aggregate_execute ::
  "MakeGqlRequest \<Rightarrow> aggregate_input \<Rightarrow> (error + json) \<times> request list" where
  "aggregate_execute makeGqlRequest input =
     (if aggregateFunction input \<noteq> AggCount \<and> \<not> truthy_string (field input)
      then (Inl (Error (field_required (aggregateFunction input))), [])
      else
        (case aggregateSelection (aggregateFunction input) (field input) of
           Inl e \<Rightarrow> (Inl e, [])
         | Inr selection \<Rightarrow>
             (let q = aggregate_query (tableName input) selection (filter' input);
                  vars = aggregate_variables (filter' input)
              in case makeGqlRequest q (Some vars) of
                   Inl e \<Rightarrow> (Inl (aggregate_rethrow e), [(q, Some vars)])
                 | Inr rawResult \<Rightarrow>
                     (Inr (finalResult (tableName input @ ''_aggregate'') rawResult),
                      [(q, Some vars)]))))"

text \<open>Example requests on the table \<open>orders\<close>.\<close>

definition aggregate_example :: "aggregate_fn \<Rightarrow> string option \<Rightarrow> aggregate_input" where
  "aggregate_example f fld =
     \<lparr>tableName = ''orders'', aggregateFunction = f, field = fld, filter' = None\<rparr>"

section \<open>Proofs for the post-hoc trim\<close>

subsection \<open>The recursion without its state\<close>




























subsection \<open>The trim and its warning\<close>

text \<open>The path restarts below a top-level key named \<open>root\<close>: the array at
  \<open>root.b\<close> is recorded as \<open>b\<close>.\<close>

lemma root_key_path:
  "trimmedFields (snd (trimResult (JObj [(''root'', JObj [(''b'', rows 101)])]) ''root'' init_state))
     = [''b (101 rows trimmed to 100)'']"
  by code_simp




subsection \<open>Where the recursion stops\<close>




section \<open>Proofs for the role check and the pre-flight ceiling\<close>

subsection \<open>Beginning with a keyword\<close>

lemma lower_char_letter:
  assumes "97 \<le> (of_char d :: nat)" and "(of_char d :: nat) \<le> 122"
  shows "lower_char c = d \<longleftrightarrow> same_letter c d"
proof -
  let ?n = "of_char c :: nat" and ?m = "of_char d :: nat"
  have n: "?n < 256" by simp
  consider (upper) "65 \<le> ?n \<and> ?n \<le> 90"
    | (latin) "192 \<le> ?n \<and> ?n \<le> 222 \<and> ?n \<noteq> 215"
    | (other) "\<not> (65 \<le> ?n \<and> ?n \<le> 90) \<and> \<not> (192 \<le> ?n \<and> ?n \<le> 222 \<and> ?n \<noteq> 215)"
    by blast
  then show ?thesis
  proof cases
    case upper
    then have l: "lower_char c = char_of (?n + 32)" by (simp add: lower_char_def Let_def)
    have "char_of (?n + 32) = d \<longleftrightarrow> ?n + 32 = ?m"
      using upper by (simp add: char_of_eq_iff take_bit_eq_mod)
    moreover have "c \<noteq> d" using upper assms by auto
    ultimately show ?thesis by (simp add: l same_letter_def)
  next
    case latin
    then have l: "lower_char c = char_of (?n + 32)" by (simp add: lower_char_def Let_def)
    have "char_of (?n + 32) = d \<longleftrightarrow> ?n + 32 = ?m"
      using latin by (simp add: char_of_eq_iff take_bit_eq_mod)
    moreover have "c \<noteq> d" using latin assms by auto
    moreover have "?n + 32 \<noteq> ?m" using latin assms by simp
    ultimately show ?thesis by (simp add: l same_letter_def)
  next
    case other
    then have "\<not> ((65 \<le> ?n \<and> ?n \<le> 90) \<or> (192 \<le> ?n \<and> ?n \<le> 222 \<and> ?n \<noteq> 215))"
      by blast
    then have l: "lower_char c = c" by (simp only: lower_char_def Let_def if_False)
    have "?n + 32 \<noteq> ?m" using other assms by auto
    then show ?thesis by (simp add: l same_letter_def)
  qed
qed

lemma letter_not_space:
  assumes "97 \<le> (of_char d :: nat)" and "(of_char d :: nat) \<le> 122" and "same_letter c d"
  shows "\<not> is_space c"
  using assms by (auto simp: same_letter_def is_space_def Let_def)

lemma trim_decomp:
  "\<exists>ws. dropWhile is_space s = trim s @ ws \<and> (\<forall>c \<in> set ws. is_space c)
     \<and> (trim s = [] \<or> \<not> is_space (last (trim s)))"
proof -
  let ?r = "dropWhile is_space s"
  have "rev (takeWhile is_space (rev ?r) @ dropWhile is_space (rev ?r)) = rev (rev ?r)"
    by (simp only: takeWhile_dropWhile_id)
  then have d: "?r = trim s @ rev (takeWhile is_space (rev ?r))"
    by (simp only: rev_append rev_rev_ident trim_def)
  have sp: "\<forall>c \<in> set (rev (takeWhile is_space (rev ?r))). is_space c"
    by (auto dest: set_takeWhileD)
  have "trim s = [] \<or> \<not> is_space (last (trim s))"
  proof (cases "dropWhile is_space (rev ?r)")
    case Nil
    then show ?thesis by (simp add: trim_def)
  next
    case (Cons a as)
    then have "\<not> is_space a" by (metis hd_dropWhile list.sel(1) list.distinct(1))
    with Cons show ?thesis by (simp add: trim_def)
  qed
  with d sp show ?thesis by blast
qed

lemma keyword_check:
  assumes kw: "\<forall>d \<in> set kw. 97 \<le> (of_char d :: nat) \<and> (of_char d :: nat) \<le> 122"
  shows "startsWith (toLowerCase (trim s)) kw \<longleftrightarrow> begins_with kw s"
proof -
  let ?r = "dropWhile is_space s" and ?k = "length kw"
  from trim_decomp [of s] obtain ws where r: "?r = trim s @ ws"
    and ws: "\<forall>c \<in> set ws. is_space c"
    and lst: "trim s = [] \<or> \<not> is_space (last (trim s))" by blast
  have match: "map lower_char xs = kw \<longleftrightarrow> list_all2 same_letter xs kw" for xs
  proof -
    have "map lower_char xs = kw \<longleftrightarrow> list_all2 (\<lambda>c d. lower_char c = d) xs kw"
      by (simp add: list_all2_conv_all_nth list_eq_iff_nth_eq)
    also have "\<dots> \<longleftrightarrow> list_all2 same_letter xs kw"
      using kw by (auto simp: list_all2_conv_all_nth lower_char_letter)
    finally show ?thesis .
  qed
  show ?thesis
  proof
    assume "startsWith (toLowerCase (trim s)) kw"
    then have t: "map lower_char (take ?k (trim s)) = kw"
      by (simp add: startsWith_def toLowerCase_def take_map)
    then have "length (take ?k (trim s)) = ?k" by (metis length_map)
    then have len: "?k \<le> length (trim s)" by simp
    then have "take ?k ?r = take ?k (trim s)" by (simp add: r)
    with t len show "begins_with kw s"
      by (simp add: begins_with_def Let_def match r)
  next
    assume "begins_with kw s"
    then have len: "?k \<le> length ?r" and m: "list_all2 same_letter (take ?k ?r) kw"
      by (simp_all add: begins_with_def Let_def)
    have "?k \<le> length (trim s)"
    proof (rule ccontr)
      assume "\<not> ?k \<le> length (trim s)"
      then have short: "length (trim s) < ?k" by simp
      with len r have "ws \<noteq> []" by auto
      let ?i = "length (trim s)"
      from short len have i: "?i < length (take ?k ?r)" by simp
      from list_all2_nthD [OF m i] have sl: "same_letter (take ?k ?r ! ?i) (kw ! ?i)" .
      from short have "kw ! ?i \<in> set kw" by simp
      with kw have "97 \<le> (of_char (kw ! ?i) :: nat)" "(of_char (kw ! ?i) :: nat) \<le> 122"
        by blast+
      from letter_not_space [OF this sl] have nsp: "\<not> is_space (take ?k ?r ! ?i)" .
      from short have "take ?k ?r ! ?i = ?r ! ?i" by simp
      also have "\<dots> = ws ! 0" by (subst r) (simp add: nth_append)
      also have "\<dots> \<in> set ws" using \<open>ws \<noteq> []\<close> by simp
      finally show False using ws nsp by blast
    qed
    then have "take ?k (trim s) = take ?k ?r" by (simp add: r)
    with m show "startsWith (toLowerCase (trim s)) kw"
      by (simp add: startsWith_def toLowerCase_def take_map match)
  qed
qed

lemma mutation_check:
  "startsWith (toLowerCase (trim s)) ''mutation'' \<longleftrightarrow> begins_with ''mutation'' s"
  by (rule keyword_check) simp

lemma trim_execute_role:
  "begins_with ''mutation'' (query input) \<Longrightarrow>
     trim_execute req input = (Inl (Error read_only_message), [])"
  "\<not> begins_with ''mutation'' (query input) \<Longrightarrow>
     snd (trim_execute req input) =
       [(query input, Some (case variables input of None \<Rightarrow> [] | Some v \<Rightarrow> v))]"
  by (simp_all add: trim_execute_def mutation_check Let_def split: sum.splits prod.splits)

lemma plain_execute_role:
  "begins_with ''mutation'' (query input) \<Longrightarrow>
     plain_execute req input = (Inl (Error read_only_message), [])"
  "\<not> begins_with ''mutation'' (query input) \<Longrightarrow>
     snd (plain_execute req input) = [(query input, variables input)]"
  by (simp_all add: plain_execute_def mutation_check split: sum.splits)

lemma mutation_execute_role:
  "\<not> begins_with ''mutation'' (mutation input) \<Longrightarrow>
     mutation_execute req input = (Inl (Error not_mutation_message), [])"
  "begins_with ''mutation'' (mutation input) \<Longrightarrow>
     snd (mutation_execute req input) = [(mutation input, mutation_variables input)]"
  by (simp_all add: mutation_execute_def mutation_check split: sum.splits)

text \<open>
  C3. The read-only tool ends with an error and no request exactly when the document
  begins with \<open>mutation\<close>, case-insensitively and after its leading white space, and
  the error is then the one of the role check; the mutation tool does so exactly when the
  document does not begin with it. A document that passes is sent as it is. The same
  holds of the read-only tool without a result policy, and the variant with the
  pre-flight ceiling ends with the error of the role check under the same condition.
\<close>

theorem role_check:
  "((\<exists>e. trim_execute req input = (Inl e, [])) \<longleftrightarrow> begins_with ''mutation'' (query input))
   \<and> (begins_with ''mutation'' (query input) \<longrightarrow>
        trim_execute req input = (Inl (Error read_only_message), []))
   \<and> (\<not> begins_with ''mutation'' (query input) \<longrightarrow>
        snd (trim_execute req input) =
          [(query input, Some (case variables input of None \<Rightarrow> [] | Some v \<Rightarrow> v))])
   \<and> ((\<exists>e. mutation_execute req minput = (Inl e, [])) \<longleftrightarrow>
        \<not> begins_with ''mutation'' (mutation minput))
   \<and> (\<not> begins_with ''mutation'' (mutation minput) \<longrightarrow>
        mutation_execute req minput = (Inl (Error not_mutation_message), []))
   \<and> (begins_with ''mutation'' (mutation minput) \<longrightarrow>
        snd (mutation_execute req minput) = [(mutation minput, mutation_variables minput)])
   \<and> ((\<exists>e. plain_execute req pinput = (Inl e, [])) \<longleftrightarrow>
        begins_with ''mutation'' (query pinput))
   \<and> (\<not> begins_with ''mutation'' (query pinput) \<longrightarrow>
        snd (plain_execute req pinput) = [(query pinput, variables pinput)])
   \<and> (preflight_execute req finput = (Inl (Error read_only_message), []) \<longleftrightarrow>
        begins_with ''mutation'' (query finput))"
proof -
  have p: "(\<exists>e. plain_execute req pinput = (Inl e, [])) \<longleftrightarrow>
      begins_with ''mutation'' (query pinput)"
  proof (cases "begins_with ''mutation'' (query pinput)")
    case True
    with plain_execute_role(1) [OF True, of req] show ?thesis by simp
  next
    case False
    from plain_execute_role(2) [OF False, of req]
    have "snd (plain_execute req pinput) \<noteq> []" by simp
    then have "\<not> (\<exists>e. plain_execute req pinput = (Inl e, []))" by auto
    with False show ?thesis by simp
  qed
  have f: "preflight_execute req finput = (Inl (Error read_only_message), []) \<longleftrightarrow>
      begins_with ''mutation'' (query finput)"
  proof (cases "begins_with ''mutation'' (query finput)")
    case True
    then show ?thesis by (simp add: preflight_execute_def Let_def mutation_check)
  next
    case False
    then have "preflight_execute req finput \<noteq> (Inl (Error read_only_message), [])"
      by (auto simp: preflight_execute_def Let_def mutation_check read_only_message_def
          limit_message_def split: sum.splits)
    with False show ?thesis by simp
  qed
  have q: "(\<exists>e. trim_execute req input = (Inl e, [])) \<longleftrightarrow> begins_with ''mutation'' (query input)"
  proof (cases "begins_with ''mutation'' (query input)")
    case True
    with trim_execute_role(1) [OF True, of req] show ?thesis by simp
  next
    case False
    from trim_execute_role(2) [OF False, of req]
    have "snd (trim_execute req input) \<noteq> []" by simp
    then have "\<not> (\<exists>e. trim_execute req input = (Inl e, []))" by auto
    with False show ?thesis by simp
  qed
  have m: "(\<exists>e. mutation_execute req minput = (Inl e, [])) \<longleftrightarrow>
      \<not> begins_with ''mutation'' (mutation minput)"
  proof (cases "begins_with ''mutation'' (mutation minput)")
    case False
    with mutation_execute_role(1) [OF False, of req] show ?thesis by simp
  next
    case True
    from mutation_execute_role(2) [OF True, of req]
    have "snd (mutation_execute req minput) \<noteq> []" by simp
    then have "\<not> (\<exists>e. mutation_execute req minput = (Inl e, []))" by auto
    with True show ?thesis by simp
  qed
  from q m p f show ?thesis
    by (simp add: trim_execute_role mutation_execute_role plain_execute_role)
qed

theorem role_check_witness:
  "begins_with ''mutation'' ''mutation { insert_users(objects: []) { affected_rows } }''
   \<and> trim_execute (\<lambda>q v. Inr JNull)
        \<lparr>query = ''mutation { insert_users(objects: []) { affected_rows } }'', variables = None,
          forceBigQuery = None\<rparr> = (Inl (Error read_only_message), [])
   \<and> snd (mutation_execute (\<lambda>q v. Inr JNull)
        \<lparr>mutation = ''mutation { insert_users(objects: []) { affected_rows } }'',
          mutation_variables = None\<rparr>)
       = [(''mutation { insert_users(objects: []) { affected_rows } }'', None)]
   \<and> begins_with ''mutation'' [CHR 0x20, CHR 0x0A, CHR 0x09, CHR ''M'', CHR ''u'', CHR ''T'',
        CHR ''a'', CHR ''T'', CHR ''I'', CHR ''o'', CHR ''N'', CHR ''{'', CHR ''}'']
   \<and> \<not> begins_with ''mutation'' ''query { users { id } }''
   \<and> snd (trim_execute (\<lambda>q v. Inr JNull)
        \<lparr>query = ''query { users { id } }'', variables = None, forceBigQuery = None\<rparr>)
       = [(''query { users { id } }'', Some [])]
   \<and> mutation_execute (\<lambda>q v. Inr JNull)
        \<lparr>mutation = ''query { users { id } }'', mutation_variables = None\<rparr>
       = (Inl (Error not_mutation_message), [])"
proof -
  let ?m = "''mutation { insert_users(objects: []) { affected_rows } }''"
  let ?q = "''query { users { id } }''"
  let ?req = "\<lambda>(q :: string) (v :: variables option). (Inr JNull :: error + json)"
  note t1 = role_check [of ?req "\<lparr>query = ?m, variables = None, forceBigQuery = None\<rparr>"
      "\<lparr>mutation = ?m, mutation_variables = None\<rparr>"]
  note t2 = role_check [of ?req "\<lparr>query = ?q, variables = None, forceBigQuery = None\<rparr>"
      "\<lparr>mutation = ?q, mutation_variables = None\<rparr>"]
  have b1: "begins_with ''mutation'' ?m" by code_simp
  have b2: "begins_with ''mutation'' [CHR 0x20, CHR 0x0A, CHR 0x09, CHR ''M'', CHR ''u'', CHR ''T'',
        CHR ''a'', CHR ''T'', CHR ''I'', CHR ''o'', CHR ''N'', CHR ''{'', CHR ''}'']" by code_simp
  have b3: "\<not> begins_with ''mutation'' ?q" by code_simp
  from t1 b1 have r1: "trim_execute ?req \<lparr>query = ?m, variables = None, forceBigQuery = None\<rparr>
      = (Inl (Error read_only_message), [])" by simp
  from t1 b1 have r2: "snd (mutation_execute ?req \<lparr>mutation = ?m, mutation_variables = None\<rparr>)
      = [(?m, None)]" by simp
  from t2 b3 have r3: "snd (trim_execute ?req \<lparr>query = ?q, variables = None, forceBigQuery = None\<rparr>)
      = [(?q, Some [])]" by simp
  from t2 b3 have r4: "mutation_execute ?req \<lparr>mutation = ?q, mutation_variables = None\<rparr>
      = (Inl (Error not_mutation_message), [])" by simp
  show ?thesis by (intro conjI b1 r1 r2 b2 b3 r3 r4)
qed

subsection \<open>The pre-flight ceiling\<close>

lemma preflight_rejects:
  assumes "forceBigQuery input \<noteq> Some True"
    and "limit input = None \<or> (\<exists>l. limit input = Some l \<and> 100 < l)"
  shows "preflight_execute req input =
     (Inl (Error (if begins_with ''mutation'' (query input) then read_only_message
                  else limit_message)), [])"
proof -
  from assms(1) have f: "(case forceBigQuery input of None \<Rightarrow> False | Some b \<Rightarrow> b) = False"
    by (cases "forceBigQuery input") auto
  from assms(2) have l: "(case limit input of None \<Rightarrow> True | Some l \<Rightarrow> l > 100) = True"
    by (cases "limit input") auto
  show ?thesis
    by (simp add: preflight_execute_def Let_def f l mutation_check)
qed

lemma preflight_passes:
  assumes "forceBigQuery input = Some True \<or> (\<exists>l. limit input = Some l \<and> l \<le> 100)"
    and "\<not> begins_with ''mutation'' (query input)"
  shows "preflight_execute req input =
     (req (query input) (Some (mergedVariables input)),
      [(query input, Some (mergedVariables input))])"
proof -
  from assms(1) have "(case forceBigQuery input of None \<Rightarrow> False | Some b \<Rightarrow> b)
      \<or> \<not> (case limit input of None \<Rightarrow> True | Some l \<Rightarrow> l > 100)"
    by (auto split: option.splits)
  with assms(2) show ?thesis
    by (auto simp add: preflight_execute_def Let_def mutation_check split: sum.splits)
qed

text \<open>
  C2. Without the override flag and without a limit, or with a limit above 100, the
  pre-flight tool ends with an error and has sent no request, whatever the request
  function would have answered: the error of the ceiling, or that of the role check when
  the document begins with \<open>mutation\<close>. With the override flag set, or with a limit of
  at most 100, the ceiling does not reject: a read-only document is sent once, with the
  merged variables, and the outcome is the request function's.
\<close>

theorem preflight_ceiling:
  "(forceBigQuery input \<noteq> Some True \<and>
      (limit input = None \<or> (\<exists>l. limit input = Some l \<and> 100 < l)) \<longrightarrow>
        snd (preflight_execute req input) = [] \<and>
        fst (preflight_execute req input) =
          Inl (Error (if begins_with ''mutation'' (query input) then read_only_message
                      else limit_message)))
   \<and> (forceBigQuery input = Some True \<or> (\<exists>l. limit input = Some l \<and> l \<le> 100) \<longrightarrow>
        preflight_execute req input \<noteq> (Inl (Error limit_message), []) \<and>
        (\<not> begins_with ''mutation'' (query input) \<longrightarrow>
           preflight_execute req input =
             (req (query input) (Some (mergedVariables input)),
              [(query input, Some (mergedVariables input))])))"
proof (intro conjI impI)
  assume a: "forceBigQuery input \<noteq> Some True \<and>
      (limit input = None \<or> (\<exists>l. limit input = Some l \<and> 100 < l))"
  then have 1: "forceBigQuery input \<noteq> Some True"
    and 2: "limit input = None \<or> (\<exists>l. limit input = Some l \<and> 100 < l)" by simp_all
  from preflight_rejects [OF 1 2, of req]
  show "snd (preflight_execute req input) = []"
    and "fst (preflight_execute req input) =
          Inl (Error (if begins_with ''mutation'' (query input) then read_only_message
                      else limit_message))"
    by simp_all
next
  assume b: "forceBigQuery input = Some True \<or> (\<exists>l. limit input = Some l \<and> l \<le> 100)"
  show "preflight_execute req input \<noteq> (Inl (Error limit_message), [])"
  proof (cases "begins_with ''mutation'' (query input)")
    case True
    then have "preflight_execute req input = (Inl (Error read_only_message), [])"
      by (simp add: preflight_execute_def Let_def mutation_check)
    then show ?thesis by (simp add: read_only_message_def limit_message_def)
  next
    case False
    from preflight_passes [OF b False, of req] show ?thesis by simp
  qed
  assume "\<not> begins_with ''mutation'' (query input)"
  from preflight_passes [OF b this, of req]
  show "preflight_execute req input =
             (req (query input) (Some (mergedVariables input)),
              [(query input, Some (mergedVariables input))])" .
qed

theorem preflight_ceiling_witness:
  "preflight_execute (\<lambda>q v. Inr JNull) (paged_example None None) = (Inl (Error limit_message), [])
   \<and> preflight_execute (\<lambda>q v. Inr JNull) (paged_example (Some 101) (Some False))
        = (Inl (Error limit_message), [])
   \<and> preflight_execute (\<lambda>q v. Inr JNull) (paged_example (Some 100) None)
        = (Inr JNull, [(users_query, Some [(''limit'', JNum 100)])])
   \<and> preflight_execute (\<lambda>q v. Inr JNull) (paged_example None (Some True))
        = (Inr JNull, [(users_query, Some [])])
   \<and> preflight_execute (\<lambda>q v. Inr JNull) (paged_example (Some 500) (Some True))
        = (Inr JNull, [(users_query, Some [(''limit'', JNum 500)])])"
proof -
  let ?req = "\<lambda>(q :: string) (v :: variables option). (Inr JNull :: error + json)"
  have nm: "\<not> begins_with ''mutation'' users_query" by code_simp
  have q: "query (paged_example l f) = users_query" for l f by (simp add: paged_example_def)
  have r1: "preflight_execute ?req (paged_example None None) = (Inl (Error limit_message), [])"
    using preflight_ceiling [of "paged_example None None" ?req] nm
    by (simp add: paged_example_def prod_eq_iff)
  have r2: "preflight_execute ?req (paged_example (Some 101) (Some False))
        = (Inl (Error limit_message), [])"
    using preflight_ceiling [of "paged_example (Some 101) (Some False)" ?req] nm
    by (simp add: paged_example_def prod_eq_iff)
  have r3: "preflight_execute ?req (paged_example (Some 100) None)
        = (Inr JNull, [(users_query, Some [(''limit'', JNum 100)])])"
    using preflight_ceiling [of "paged_example (Some 100) None" ?req] nm
    by (simp add: paged_example_def mergedVariables_def)
  have r4: "preflight_execute ?req (paged_example None (Some True))
        = (Inr JNull, [(users_query, Some [])])"
    using preflight_ceiling [of "paged_example None (Some True)" ?req] nm
    by (simp add: paged_example_def mergedVariables_def)
  have r5: "preflight_execute ?req (paged_example (Some 500) (Some True))
        = (Inr JNull, [(users_query, Some [(''limit'', JNum 500)])])"
    using preflight_ceiling [of "paged_example (Some 500) (Some True)" ?req] nm
    by (simp add: paged_example_def mergedVariables_def)
  show ?thesis by (intro conjI r1 r2 r3 r4 r5)
qed

section \<open>Proofs for the type walks\<close>

lemma currentType_ref_of:
  "currentType (ref_of t) = Inr (TypeRef (kind_of (innermost_kind t)) (Some (innermost_name t)) None)"
proof (induction t)
  case (Named k n)
  then show ?case by (cases k) simp_all
qed simp_all

lemma walk_type_ref_of:
  "walk_type (Some (ref_of t)) w =
     w\<lparr>typeString := (if innermost_name t = [] then ''unknown'' else innermost_name t),
       isNonNull := isNonNull w \<or> has_non_null t,
       isList := isList w \<or> has_list t\<rparr>"
proof (induction t arbitrary: w)
  case (Named k n)
  then show ?case by (cases k) simp_all
qed simp_all

lemma list_layers_simps:
  "depth (list_layers n t) = n + depth t"
  "innermost_kind (list_layers n t) = innermost_kind t"
  "innermost_name (list_layers n t) = innermost_name t"
  "has_list (list_layers n t) = (0 < n \<or> has_list t)"
  "has_non_null (list_layers n t) = has_non_null t"
  by (induction n) auto

text \<open>
  C4 (as amended). On the reference of every well-formed type, whatever its depth, both
  walks end: the filter of the preview finds the innermost named type, and the loop of the
  table description returns its name (\<open>unknown\<close> for an empty one) with \<open>isList\<close> set
  when some list layer and \<open>isNonNull\<close> set when some non-null layer was met.
\<close>

theorem wrapper_resolution:
  "currentType (ref_of t) =
     Inr (TypeRef (kind_of (innermost_kind t)) (Some (innermost_name t)) None)
   \<and> walk_type (Some (ref_of t)) \<lparr>typeString = [], isNonNull = False, isList = False\<rparr> =
       \<lparr>typeString = (if innermost_name t = [] then ''unknown'' else innermost_name t),
        isNonNull = has_non_null t, isList = has_list t\<rparr>"
  by (simp add: currentType_ref_of walk_type_ref_of)

text \<open>
  C4 as stated fails: neither walk has a depth bound or an error of its own. A chain
  that ends without a named type is answered by the table description with an empty name
  and no error, where the preview fails on the null dereference; a chain of 500 list
  layers is resolved by both, and no bound rejects deeper chains.
\<close>

theorem wrapper_resolution_counterexample:
  "walk_type (Some (TypeRef NON_NULL None None))
       \<lparr>typeString = [], isNonNull = False, isList = False\<rparr>
     = \<lparr>typeString = [], isNonNull = True, isList = False\<rparr>
   \<and> fullTypeString (Some (TypeRef NON_NULL None None)) = ''!''
   \<and> currentType (TypeRef LIST None None) = Inl (TypeError null_kind_message)
   \<and> depth (list_layers 500 (Named NScalar ''Int'')) = 500
   \<and> currentType (ref_of (list_layers 500 (Named NScalar ''Int''))) =
       Inr (TypeRef SCALAR (Some ''Int'') None)
   \<and> fullTypeString (Some (ref_of (list_layers 500 (Named NScalar ''Int'')))) = ''[Int]''
   \<and> \<not> (\<exists>bound. \<forall>t. bound < depth t \<longrightarrow> (\<exists>e. currentType (ref_of t) = Inl e))"
proof -
  have a: "walk_type (Some (TypeRef NON_NULL None None))
       \<lparr>typeString = [], isNonNull = False, isList = False\<rparr>
     = \<lparr>typeString = [], isNonNull = True, isList = False\<rparr>" by simp
  have b: "fullTypeString (Some (TypeRef NON_NULL None None)) = ''!''"
    by (simp add: fullTypeString_def)
  have c: "currentType (TypeRef LIST None None) = Inl (TypeError null_kind_message)" by simp
  have d: "depth (list_layers 500 (Named NScalar ''Int'')) = 500"
    by (simp add: list_layers_simps)
  have e: "currentType (ref_of (list_layers 500 (Named NScalar ''Int''))) =
       Inr (TypeRef SCALAR (Some ''Int'') None)"
    by (simp add: currentType_ref_of list_layers_simps)
  have f: "fullTypeString (Some (ref_of (list_layers 500 (Named NScalar ''Int'')))) = ''[Int]''"
    by (simp add: fullTypeString_def walk_type_ref_of list_layers_simps)
  have g: "\<not> (\<exists>bound. \<forall>t. bound < depth t \<longrightarrow> (\<exists>e. currentType (ref_of t) = Inl e))"
  proof
    assume "\<exists>bound. \<forall>t. bound < depth t \<longrightarrow> (\<exists>e. currentType (ref_of t) = Inl e)"
    then obtain bound where
      h: "\<forall>t. bound < depth t \<longrightarrow> (\<exists>e. currentType (ref_of t) = Inl e)" by blast
    have "bound < depth (list_layers (Suc bound) (Named NScalar ''Int''))"
      by (simp add: list_layers_simps)
    with h obtain e where
      "currentType (ref_of (list_layers (Suc bound) (Named NScalar ''Int''))) = Inl e" by blast
    then show False by (simp only: currentType_ref_of) simp
  qed
  show ?thesis by (intro conjI a b c d e f g)
qed

theorem wrapper_resolution_witness:
  "currentType (ref_of (NonNullOf (ListOf (NonNullOf (Named NScalar ''String''))))) =
     Inr (TypeRef SCALAR (Some ''String'') None)
   \<and> walk_type (Some (ref_of (NonNullOf (ListOf (NonNullOf (Named NScalar ''String''))))))
       \<lparr>typeString = [], isNonNull = False, isList = False\<rparr> =
       \<lparr>typeString = ''String'', isNonNull = True, isList = True\<rparr>"
  using wrapper_resolution [of "NonNullOf (ListOf (NonNullOf (Named NScalar ''String'')))"]
  by simp

lemma fullTypeString_ref_of:
  "fullTypeString (Some (ref_of t)) =
     (let n = (if innermost_name t = [] then ''unknown'' else innermost_name t)
      in (if has_list t then ''['' @ n @ '']'' else n) @ (if has_non_null t then ''!'' else []))"
  by (simp add: fullTypeString_def walk_type_ref_of Let_def)

text \<open>
  C9 (as amended). The displayed type of a column is the innermost name, in brackets
  when the chain has a list layer, and followed by \<open>!\<close> exactly when the chain has a
  non-null layer at any depth.
\<close>

theorem display_string:
  "fullTypeString (Some (ref_of t)) =
     (let n = (if innermost_name t = [] then ''unknown'' else innermost_name t)
      in (if has_list t then ''['' @ n @ '']'' else n) @ (if has_non_null t then ''!'' else []))
   \<and> column_type (columnInfo \<lparr>df_name = c, df_type = Some (ref_of t), df_description = d,
         df_args = a\<rparr>) = fullTypeString (Some (ref_of t))"
  by (simp add: fullTypeString_ref_of columnInfo_def)

theorem display_string_witness:
  "fullTypeString (Some (ref_of (NonNullOf (ListOf (Named NScalar ''String''))))) = ''[String]!''
   \<and> fullTypeString (Some (ref_of (ListOf (Named NScalar ''Int'')))) = ''[Int]''
   \<and> fullTypeString (Some (ref_of (NonNullOf (Named NScalar ''String'')))) = ''String!''
   \<and> fullTypeString (Some (ref_of (Named NObject ''users''))) = ''users''"
  using display_string [of "NonNullOf (ListOf (Named NScalar ''String''))"]
    display_string [of "ListOf (Named NScalar ''Int'')"]
    display_string [of "NonNullOf (Named NScalar ''String'')"]
    display_string [of "Named NObject ''users''"]
  by simp

text \<open>
  C9 as stated fails on a list of non-null strings: its outermost layer is the list, and
  the display still ends in \<open>!\<close>.
\<close>

theorem display_string_counterexample:
  "\<not> outer_non_null (ListOf (NonNullOf (Named NScalar ''String'')))
   \<and> fullTypeString (Some (ref_of (ListOf (NonNullOf (Named NScalar ''String''))))) = ''[String]!''"
  by (simp add: fullTypeString_def)

lemma filter_fields_shape:
  assumes "\<forall>f \<in> set fs. field_type f = ref_of (shape f)"
  shows "filter_fields fs =
     Inr (filter (\<lambda>f. innermost_kind (shape f) = NScalar \<or> innermost_kind (shape f) = NEnum) fs)"
  using assms
proof (induction fs)
  case Nil
  then show ?case by simp
next
  case (Cons f fs)
  have "is_scalar_field f =
      Inr (innermost_kind (shape f) = NScalar \<or> innermost_kind (shape f) = NEnum)"
    using Cons.prems
    by (cases "innermost_kind (shape f)") (simp_all add: is_scalar_field_def currentType_ref_of)
  with Cons show ?case by simp
qed

lemma preview_sends:
  assumes "find_table schema (tableName input) = Some tableType"
    and "scalarFields tableType = Inr names"
  shows "snd (preview_execute req (Inr schema) input) =
     [(preview_query (tableName input) names, Some [(''limit'', JNum (preview_limit input))])]"
  using assms by (simp add: preview_execute_def Let_def)

text \<open>
  C6. For a table whose fields have well-formed types, the projection is the names of
  the fields whose innermost kind is scalar or enum, in their order, and the single name
  \<open>__typename\<close> when there is none (also when the type has no field list). The request
  of the preview is built from the projection and the input alone, whatever the request
  function is.
\<close>

theorem field_projection:
  "(type_fields tableType = Some fs \<and> (\<forall>f \<in> set fs. field_type f = ref_of (shape f)) \<longrightarrow>
      scalarFields tableType =
        Inr (let names = map field_name
               (filter (\<lambda>f. innermost_kind (shape f) = NScalar \<or>
                             innermost_kind (shape f) = NEnum) fs)
             in if names = [] then [''__typename''] else names))
   \<and> (type_fields tableType = None \<longrightarrow> scalarFields tableType = Inr [''__typename''])
   \<and> (find_table schema (tableName input) = Some tableType \<and>
        scalarFields tableType = Inr names \<longrightarrow>
        snd (preview_execute req (Inr schema) input) =
          [(preview_query (tableName input) names,
            Some [(''limit'', JNum (preview_limit input))])])"
proof (intro conjI impI)
  assume a: "type_fields tableType = Some fs \<and> (\<forall>f \<in> set fs. field_type f = ref_of (shape f))"
  then have 1: "type_fields tableType = Some fs"
    and 2: "\<forall>f \<in> set fs. field_type f = ref_of (shape f)" by simp_all
  from filter_fields_shape [OF 2] 1
  show "scalarFields tableType =
        Inr (let names = map field_name
               (filter (\<lambda>f. innermost_kind (shape f) = NScalar \<or>
                             innermost_kind (shape f) = NEnum) fs)
             in if names = [] then [''__typename''] else names)"
    by (simp add: scalarFields_def Let_def)
next
  assume "type_fields tableType = None"
  then show "scalarFields tableType = Inr [''__typename'']" by (simp add: scalarFields_def)
next
  assume "find_table schema (tableName input) = Some tableType \<and>
        scalarFields tableType = Inr names"
  then show "snd (preview_execute req (Inr schema) input) =
          [(preview_query (tableName input) names,
            Some [(''limit'', JNum (preview_limit input))])]"
    by (simp add: preview_sends)
qed

theorem field_projection_witness:
  "scalarFields (table_of ''users'' users_fields) = Inr [''id'', ''status'', ''tags'']
   \<and> scalarFields (table_of ''links'' links_fields) = Inr [''__typename'']
   \<and> scalarFields \<lparr>type_kind = OBJECT, type_name = ''empty'', type_fields = None\<rparr>
        = Inr [''__typename'']
   \<and> snd (preview_execute (\<lambda>q v. Inr JNull) (Inr example_schema)
          \<lparr>tableName = ''links'', preview_limit = 5\<rparr>)
        = [('' query PreviewData($limit: Int!) { links(limit: $limit) { __typename } }'',
            Some [(''limit'', JNum 5)])]"
proof -
  let ?req = "\<lambda>(q :: string) (v :: variables option). (Inr JNull :: error + json)"
  let ?input = "\<lparr>tableName = ''links'', preview_limit = 5\<rparr>"
  have u: "type_fields (table_of ''users'' users_fields) = Some (map field_of users_fields) \<and>
      (\<forall>f \<in> set (map field_of users_fields). field_type f = ref_of (shape_in users_fields f))"
    by (simp add: table_of_def users_fields_def field_of_def shape_in_def)
  have l: "type_fields (table_of ''links'' links_fields) = Some (map field_of links_fields) \<and>
      (\<forall>f \<in> set (map field_of links_fields). field_type f = ref_of (shape_in links_fields f))"
    by (simp add: table_of_def links_fields_def field_of_def shape_in_def)
  note t = field_projection [where req = ?req]
  from t [of "table_of ''users'' users_fields" "map field_of users_fields" "shape_in users_fields",
      THEN conjunct1, rule_format, OF u]
  have r1: "scalarFields (table_of ''users'' users_fields) = Inr [''id'', ''status'', ''tags'']"
    by (simp add: users_fields_def field_of_def shape_in_def)
  from t [of "table_of ''links'' links_fields" "map field_of links_fields" "shape_in links_fields",
      THEN conjunct1, rule_format, OF l]
  have r2: "scalarFields (table_of ''links'' links_fields) = Inr [''__typename'']"
    by (simp add: links_fields_def field_of_def shape_in_def)
  from t [of "\<lparr>type_kind = OBJECT, type_name = ''empty'', type_fields = None\<rparr>",
      THEN conjunct2, THEN conjunct1]
  have r3: "scalarFields \<lparr>type_kind = OBJECT, type_name = ''empty'', type_fields = None\<rparr>
        = Inr [''__typename'']" by simp
  have f: "find_table example_schema (tableName ?input) = Some (table_of ''links'' links_fields) \<and>
      scalarFields (table_of ''links'' links_fields) = Inr [''__typename'']"
    using r2 by (simp add: find_table_def example_schema_def table_of_def)
  from t [where schema = example_schema and input = ?input, THEN conjunct2, THEN conjunct2,
      rule_format, OF f]
  have r4: "snd (preview_execute ?req (Inr example_schema) ?input)
        = [('' query PreviewData($limit: Int!) { links(limit: $limit) { __typename } }'',
            Some [(''limit'', JNum 5)])]"
    by (simp add: preview_query_def)
  show ?thesis by (intro conjI r1 r2 r3 r4)
qed

section \<open>Proofs for the root-type check\<close>

subsection \<open>Suspect types\<close>

lemma startsWith_prefix: "startsWith s p \<longleftrightarrow> prefix p s"
  by (auto simp: startsWith_def prefix_def) (metis append_take_drop_id)

lemma endsWith_suffix: "endsWith s p \<longleftrightarrow> suffix p s"
proof
  assume "endsWith s p"
  then have "s = take (length s - length p) s @ p"
    by (metis endsWith_def append_take_drop_id)
  then show "suffix p s" by (rule suffixI)
next
  assume "suffix p s"
  then obtain q where "s = q @ p" by (auto simp: suffix_def)
  then show "endsWith s p" by (simp add: endsWith_def)
qed

lemma rootTypeNames_set:
  "set (rootTypeNames schema) = canonical_roots schema - {[]}"
  by (auto simp: rootTypeNames_def canonical_roots_def split: option.splits)

lemma allRootTypes_suspect: "allRootTypes schema = filter (suspect schema) (types schema)"
proof -
  have "(type_kind t = OBJECT \<and> endsWith (type_name t) ''_root'' \<and>
         type_name t \<notin> set (rootTypeNames schema) \<and> \<not> startsWith (type_name t) ''__'')
        \<longleftrightarrow> suspect schema t" for t
    by (auto simp: suspect_def rootTypeNames_set endsWith_suffix startsWith_prefix)
  then show ?thesis by (simp add: allRootTypes_def)
qed

lemma supported_canonical:
  "check_supportedTypes schema = canonical_roots schema"
  "list_supportedTypes fieldType schema \<subseteq> canonical_roots schema"
  by (auto simp: check_supportedTypes_def list_supportedTypes_def canonical_roots_def
      split: if_splits)

lemma filter_implied: "(\<And>x. Q x \<Longrightarrow> P x) \<Longrightarrow> filter P (filter Q xs) = filter Q xs"
  by (induction xs) auto

text \<open>
  C8. Both tools report exactly the suspect types of the schema, in the order of its type
  list, the check tool with their field counts; the requested field type of the listing
  tool makes no difference. No reported name begins with \<open>__\<close>.
\<close>

theorem suspect_root_types:
  "check_unsupportedTypes schema =
     map (\<lambda>t. \<lparr>name = type_name t, fieldCount = count_fields t\<rparr>)
       (filter (suspect schema) (types schema))
   \<and> list_unsupportedTypes fieldType schema =
       map type_name (filter (suspect schema) (types schema))
   \<and> (\<forall>u \<in> set (check_unsupportedTypes schema). \<not> prefix ''__'' (name u))
   \<and> (\<forall>n \<in> set (list_unsupportedTypes fieldType schema). \<not> prefix ''__'' n)"
proof -
  have "filter (\<lambda>t. type_name t \<notin> check_supportedTypes schema \<and> type_kind t = OBJECT)
      (filter (suspect schema) (types schema)) = filter (suspect schema) (types schema)"
    by (rule filter_implied) (simp add: supported_canonical suspect_def)
  then have a: "check_unsupportedTypes schema =
     map (\<lambda>t. \<lparr>name = type_name t, fieldCount = count_fields t\<rparr>)
       (filter (suspect schema) (types schema))"
    by (simp add: check_unsupportedTypes_def allRootTypes_suspect count_fields_def)
  have "filter (\<lambda>t. type_name t \<notin> list_supportedTypes fieldType schema)
      (filter (suspect schema) (types schema)) = filter (suspect schema) (types schema)"
    using supported_canonical(2) [of fieldType schema]
    by (intro filter_implied) (auto simp: suspect_def)
  then have b: "list_unsupportedTypes fieldType schema =
       map type_name (filter (suspect schema) (types schema))"
    by (simp add: list_unsupportedTypes_def allRootTypes_suspect)
  have c: "\<forall>u \<in> set (check_unsupportedTypes schema). \<not> prefix ''__'' (name u)"
    by (auto simp: a suspect_def)
  have d: "\<forall>n \<in> set (list_unsupportedTypes fieldType schema). \<not> prefix ''__'' n"
    by (auto simp: b suspect_def)
  show ?thesis by (intro conjI a b c d)
qed

theorem suspect_root_types_witness:
  "check_unsupportedTypes (rooted_schema [object_type ''weird_root'' 4]) =
     [\<lparr>name = ''weird_root'', fieldCount = 4\<rparr>]
   \<and> list_unsupportedTypes (Some MUTATION) (rooted_schema [object_type ''weird_root'' 4]) =
       [''weird_root'']
   \<and> check_unsupportedTypes (rooted_schema []) = []
   \<and> list_unsupportedTypes None (rooted_schema []) = []
   \<and> check_unsupportedTypes (rooted_schema [object_type ''__weird_root'' 2]) = []
   \<and> list_unsupportedTypes None (rooted_schema [object_type ''__weird_root'' 2]) = []"
proof -
  have s1: "filter (suspect (rooted_schema [object_type ''weird_root'' 4]))
      (types (rooted_schema [object_type ''weird_root'' 4])) = [object_type ''weird_root'' 4]"
    by (simp add: suspect_def rooted_schema_def object_type_def canonical_roots_def suffix_def
        prefix_def)
  have s2: "filter (suspect (rooted_schema [])) (types (rooted_schema [])) = []"
    by (simp add: suspect_def rooted_schema_def object_type_def canonical_roots_def suffix_def
        prefix_def)
  have s3: "filter (suspect (rooted_schema [object_type ''__weird_root'' 2]))
      (types (rooted_schema [object_type ''__weird_root'' 2])) = []"
    by (simp add: suspect_def rooted_schema_def object_type_def canonical_roots_def suffix_def
        prefix_def)
  note t1 = suspect_root_types [of "rooted_schema [object_type ''weird_root'' 4]" "Some MUTATION"]
  note t2 = suspect_root_types [of "rooted_schema []" None]
  note t3 = suspect_root_types [of "rooted_schema [object_type ''__weird_root'' 2]" None]
  from t1 have r1: "check_unsupportedTypes (rooted_schema [object_type ''weird_root'' 4]) =
     [\<lparr>name = ''weird_root'', fieldCount = 4\<rparr>]"
    by (simp add: s1) (simp add: object_type_def count_fields_def)
  from t1 have r2: "list_unsupportedTypes (Some MUTATION)
      (rooted_schema [object_type ''weird_root'' 4]) = [''weird_root'']"
    by (simp add: s1) (simp add: object_type_def)
  from t2 have r3: "check_unsupportedTypes (rooted_schema []) = []" by (simp add: s2)
  from t2 have r4: "list_unsupportedTypes None (rooted_schema []) = []" by (simp add: s2)
  from t3 have r5: "check_unsupportedTypes (rooted_schema [object_type ''__weird_root'' 2]) = []"
    by (simp add: s3)
  from t3 have r6: "list_unsupportedTypes None (rooted_schema [object_type ''__weird_root'' 2]) = []"
    by (simp add: s3)
  show ?thesis by (intro conjI r1 r2 r3 r4 r5 r6)
qed

section \<open>Proofs for the schema cache\<close>

lemma cached_get:
  "introspectionSchema st = Some schema \<Longrightarrow> getIntrospectionSchema net st = (Inr schema, st)"
  by (simp add: getIntrospectionSchema_def)

lemma cached_get_times:
  "introspectionSchema st = Some schema \<Longrightarrow>
     get_times n net st = (replicate n (Inr schema), st)"
  by (induction n) (simp_all add: cached_get)

lemma first_get:
  assumes "introspectionSchema st = None"
  shows "net (fetches st) = Inr (Some schema) \<Longrightarrow>
      getIntrospectionSchema net st =
        (Inr schema, st\<lparr>introspectionSchema := Some schema, fetches := Suc (fetches st)\<rparr>)"
    and "net (fetches st) = Inr None \<Longrightarrow>
      getIntrospectionSchema net st =
        (Inl (fetch_failed no_schema_message), st\<lparr>fetches := Suc (fetches st)\<rparr>)"
    and "net (fetches st) = Inl e \<Longrightarrow>
      getIntrospectionSchema net st =
        (Inl (fetch_failed (message e)), st\<lparr>fetches := Suc (fetches st)\<rparr>)"
  using assms by (simp_all add: getIntrospectionSchema_def)

lemma empty_get_fetches:
  "introspectionSchema st = None \<Longrightarrow>
     fetches (snd (getIntrospectionSchema net st)) = Suc (fetches st)"
  by (simp add: getIntrospectionSchema_def split: sum.splits option.splits)

lemma get_twice:
  "snd (get_times 2 net st) =
     snd (getIntrospectionSchema net (snd (getIntrospectionSchema net st)))"
  by (auto simp: numeral_2_eq_2 split: prod.splits)

text \<open>
  C5. While a schema is cached, any number of calls return that schema and leave the
  state as it is: no request is issued. A call on the empty cache issues one request; when
  it succeeds, this and all later calls return the fetched schema with that one request;
  when it fails, the caller gets an error that carries the cause, the cache stays empty,
  and the next call issues a request again, whose schema it returns when that one
  succeeds.
\<close>

theorem schema_cache:
  "(introspectionSchema st = Some schema \<longrightarrow>
      get_times n net st = (replicate n (Inr schema), st))
   \<and> (introspectionSchema st = None \<and> net (fetches st) = Inr (Some schema) \<longrightarrow>
      get_times (Suc n) net st =
        (replicate (Suc n) (Inr schema),
         st\<lparr>introspectionSchema := Some schema, fetches := Suc (fetches st)\<rparr>))
   \<and> (introspectionSchema st = None \<and> net (fetches st) = Inr None \<longrightarrow>
      getIntrospectionSchema net st =
        (Inl (fetch_failed no_schema_message), st\<lparr>fetches := Suc (fetches st)\<rparr>))
   \<and> (introspectionSchema st = None \<and> net (fetches st) = Inl e \<longrightarrow>
      getIntrospectionSchema net st =
        (Inl (fetch_failed (message e)), st\<lparr>fetches := Suc (fetches st)\<rparr>))
   \<and> (introspectionSchema st = None \<and> (\<forall>s. net (fetches st) \<noteq> Inr (Some s)) \<longrightarrow>
      introspectionSchema (snd (getIntrospectionSchema net st)) = None \<and>
      fetches (snd (getIntrospectionSchema net st)) = Suc (fetches st) \<and>
      fetches (snd (get_times 2 net st)) = Suc (Suc (fetches st)) \<and>
      (\<forall>s. net (Suc (fetches st)) = Inr (Some s) \<longrightarrow>
         fst (getIntrospectionSchema net (snd (getIntrospectionSchema net st))) = Inr s))"
proof (intro conjI impI allI)
  assume "introspectionSchema st = Some schema"
  then show "get_times n net st = (replicate n (Inr schema), st)" by (rule cached_get_times)
next
  assume a: "introspectionSchema st = None \<and> net (fetches st) = Inr (Some schema)"
  let ?st = "st\<lparr>introspectionSchema := Some schema, fetches := Suc (fetches st)\<rparr>"
  from a have g: "getIntrospectionSchema net st = (Inr schema, ?st)" by (simp add: first_get)
  have "introspectionSchema ?st = Some schema" by simp
  from cached_get_times [OF this, of n net] g
  show "get_times (Suc n) net st = (replicate (Suc n) (Inr schema), ?st)" by simp
next
  assume "introspectionSchema st = None \<and> net (fetches st) = Inr None"
  then show "getIntrospectionSchema net st =
        (Inl (fetch_failed no_schema_message), st\<lparr>fetches := Suc (fetches st)\<rparr>)"
    by (simp add: first_get)
next
  assume "introspectionSchema st = None \<and> net (fetches st) = Inl e"
  then show "getIntrospectionSchema net st =
        (Inl (fetch_failed (message e)), st\<lparr>fetches := Suc (fetches st)\<rparr>)"
    by (simp add: first_get)
next
  assume a: "introspectionSchema st = None \<and> (\<forall>s. net (fetches st) \<noteq> Inr (Some s))"
  then show e: "introspectionSchema (snd (getIntrospectionSchema net st)) = None"
    by (simp add: getIntrospectionSchema_def split: sum.splits option.splits)
  from a show f: "fetches (snd (getIntrospectionSchema net st)) = Suc (fetches st)"
    by (simp add: empty_get_fetches)
  from empty_get_fetches [OF e, of net] f
  show "fetches (snd (get_times 2 net st)) = Suc (Suc (fetches st))"
    by (simp add: get_twice)
  fix s
  assume "net (Suc (fetches st)) = Inr (Some s)"
  with e f show "fst (getIntrospectionSchema net (snd (getIntrospectionSchema net st))) = Inr s"
    by (simp add: first_get)
qed

theorem schema_cache_witness:
  "get_times 4 flaky_backend \<lparr>introspectionSchema = None, fetches = 0\<rparr> =
     ([Inl (Error ''Failed to get GraphQL schema: connect ECONNREFUSED''),
       Inr example_schema, Inr example_schema, Inr example_schema],
      \<lparr>introspectionSchema = Some example_schema, fetches = 2\<rparr>)"
proof -
  let ?st0 = "\<lparr>introspectionSchema = None, fetches = 0\<rparr>"
  let ?st1 = "\<lparr>introspectionSchema = None, fetches = Suc 0\<rparr>"
  have "introspectionSchema ?st0 = None \<and>
      flaky_backend (fetches ?st0) = Inl (Error ''connect ECONNREFUSED'')"
    by (simp add: flaky_backend_def)
  from schema_cache [of ?st0 example_schema 0 flaky_backend "Error ''connect ECONNREFUSED''",
      THEN conjunct2, THEN conjunct2, THEN conjunct2, THEN conjunct1, rule_format, OF this]
  have g0: "getIntrospectionSchema flaky_backend ?st0 =
      (Inl (Error ''Failed to get GraphQL schema: connect ECONNREFUSED''), ?st1)"
    by (simp add: fetch_failed_def)
  have "introspectionSchema ?st1 = None \<and>
      flaky_backend (fetches ?st1) = Inr (Some example_schema)"
    by (simp add: flaky_backend_def)
  from schema_cache [of ?st1 example_schema 2 flaky_backend,
      THEN conjunct2, THEN conjunct1, rule_format, OF this]
  have g1: "get_times 3 flaky_backend ?st1 =
      ([Inr example_schema, Inr example_schema, Inr example_schema],
       \<lparr>introspectionSchema = Some example_schema, fetches = 2\<rparr>)"
    by (simp add: numeral_3_eq_3 numeral_2_eq_2)
  have "get_times 4 flaky_backend ?st0 =
      (case getIntrospectionSchema flaky_backend ?st0 of
         (r, st') \<Rightarrow> (case get_times 3 flaky_backend st' of (rs, st'') \<Rightarrow> (r # rs, st'')))"
    by (simp add: eval_nat_numeral)
  with g0 g1 show ?thesis by simp
qed

section \<open>Proofs for the aggregate tool\<close>

lemma selection_count: "aggregateSelection AggCount fld = Inr ''{ count }''"
  by (simp add: aggregateSelection_def)

lemma selection_field:
  "f \<noteq> AggCount \<Longrightarrow> s \<noteq> [] \<Longrightarrow>
     aggregateSelection f (Some s) = Inr (''{ '' @ fn_name f @ '' { '' @ s @ '' } }'')"
  by (simp add: aggregateSelection_def)

lemma aggregate_sends:
  assumes "aggregateSelection (aggregateFunction input) (field input) = Inr selection"
    and "aggregateFunction input = AggCount \<or> truthy_string (field input)"
  shows "snd (aggregate_execute req input) =
     [(aggregate_query (tableName input) selection (filter' input),
       Some (aggregate_variables (filter' input)))]"
  using assms by (auto simp: aggregate_execute_def Let_def split: sum.splits)

text \<open>
  C7. For \<open>count\<close> the aggregate selection is \<open>{ count }\<close>, and for another function
  with a non-empty field it is \<open>{ function { field } }\<close>; the one request sent carries
  the document built around that selection. For a function other than \<open>count\<close> with no
  field, or an empty one, the run ends with the error that the field is required and no
  request is sent.
\<close>

theorem aggregate_selection:
  "(aggregateFunction input = AggCount \<longrightarrow>
      aggregateSelection (aggregateFunction input) (field input) = Inr ''{ count }'' \<and>
      snd (aggregate_execute req input) =
        [(aggregate_query (tableName input) ''{ count }'' (filter' input),
          Some (aggregate_variables (filter' input)))])
   \<and> (aggregateFunction input \<noteq> AggCount \<and> field input = Some s \<and> s \<noteq> [] \<longrightarrow>
      aggregateSelection (aggregateFunction input) (field input) =
        Inr (''{ '' @ fn_name (aggregateFunction input) @ '' { '' @ s @ '' } }'') \<and>
      snd (aggregate_execute req input) =
        [(aggregate_query (tableName input)
            (''{ '' @ fn_name (aggregateFunction input) @ '' { '' @ s @ '' } }'') (filter' input),
          Some (aggregate_variables (filter' input)))])
   \<and> (aggregateFunction input \<noteq> AggCount \<and> (field input = None \<or> field input = Some []) \<longrightarrow>
      aggregate_execute req input =
        (Inl (Error (field_required (aggregateFunction input))), []))"
proof (intro conjI impI)
  assume c: "aggregateFunction input = AggCount"
  then show s: "aggregateSelection (aggregateFunction input) (field input) = Inr ''{ count }''"
    by (simp add: selection_count)
  from aggregate_sends [OF s, of req] c
  show "snd (aggregate_execute req input) =
        [(aggregate_query (tableName input) ''{ count }'' (filter' input),
          Some (aggregate_variables (filter' input)))]" by simp
next
  assume a: "aggregateFunction input \<noteq> AggCount \<and> field input = Some s \<and> s \<noteq> []"
  then show s: "aggregateSelection (aggregateFunction input) (field input) =
        Inr (''{ '' @ fn_name (aggregateFunction input) @ '' { '' @ s @ '' } }'')"
    by (simp add: selection_field)
  from aggregate_sends [OF s, of req] a
  show "snd (aggregate_execute req input) =
        [(aggregate_query (tableName input)
            (''{ '' @ fn_name (aggregateFunction input) @ '' { '' @ s @ '' } }'') (filter' input),
          Some (aggregate_variables (filter' input)))]" by simp
next
  assume "aggregateFunction input \<noteq> AggCount \<and> (field input = None \<or> field input = Some [])"
  then show "aggregate_execute req input =
        (Inl (Error (field_required (aggregateFunction input))), [])"
    by (auto simp: aggregate_execute_def)
qed

theorem aggregate_selection_witness:
  "aggregateSelection AggCount None = Inr ''{ count }''
   \<and> aggregateSelection AggSum (Some ''amount'') = Inr ''{ sum { amount } }''
   \<and> snd (aggregate_execute (\<lambda>q v. Inr JNull) (aggregate_example AggSum (Some ''amount''))) =
       [(aggregate_query ''orders'' ''{ sum { amount } }'' None, Some [])]
   \<and> aggregate_execute (\<lambda>q v. Inr JNull) (aggregate_example AggAvg None) =
       (Inl (Error (''The '' @ quoted ''field'' @ '' parameter is required for '' @ quoted ''avg''
          @ '' aggregation.'')), [])
   \<and> aggregate_execute (\<lambda>q v. Inr JNull) (aggregate_example AggMax (Some [])) =
       (Inl (Error (field_required AggMax)), [])"
proof -
  let ?req = "\<lambda>(q :: string) (v :: variables option). (Inr JNull :: error + json)"
  from aggregate_selection [where input = "aggregate_example AggCount None" and req = ?req]
  have r1: "aggregateSelection AggCount None = Inr ''{ count }''"
    by (simp add: aggregate_example_def)
  from aggregate_selection [where input = "aggregate_example AggSum (Some ''amount'')"
      and s = "''amount''" and req = ?req]
  have r2: "aggregateSelection AggSum (Some ''amount'') = Inr ''{ sum { amount } }''"
    and r3: "snd (aggregate_execute ?req (aggregate_example AggSum (Some ''amount''))) =
       [(aggregate_query ''orders'' ''{ sum { amount } }'' None, Some [])]"
    by (simp_all add: aggregate_example_def aggregate_variables_def)
  from aggregate_selection [where input = "aggregate_example AggAvg None" and req = ?req]
  have r4: "aggregate_execute ?req (aggregate_example AggAvg None) =
       (Inl (Error (''The '' @ quoted ''field'' @ '' parameter is required for '' @ quoted ''avg''
          @ '' aggregation.'')), [])"
    by (simp add: aggregate_example_def field_required_def)
  from aggregate_selection [where input = "aggregate_example AggMax (Some [])" and req = ?req]
  have r5: "aggregate_execute ?req (aggregate_example AggMax (Some [])) =
       (Inl (Error (field_required AggMax)), [])"
    by (simp add: aggregate_example_def)
  show ?thesis by (intro conjI r1 r2 r3 r4 r5)
qed

end
